theory Spec2Isabelle
  imports Main
begin

section \<open>The path value of \<^verbatim>\<open>common/filesystem.hpp\<close>\<close>

text \<open>
  The class \<^verbatim>\<open>tec::FilePath\<close> wraps one UTF-8 string, \<^verbatim>\<open>path\<close>. The header is
  compiled either with \<^verbatim>\<open>WIN32\<close> defined or without it; the choice fixes the native
  separator character. The model carries that choice as a value of type \<open>host\<close>, so one
  theory covers both builds.
\<close>

datatype host = Posix | Windows

record FilePath =
  path :: string

text \<open>
  \<^verbatim>\<open>const static char PATH_SEPARATOR_C\<close>: a backslash under \<^verbatim>\<open>WIN32\<close>, a slash otherwise.
  The backslash is written by its code, 0x5C.
\<close>

definition PATH_SEPARATOR_C :: "host \<Rightarrow> char" where
  "PATH_SEPARATOR_C h = (case h of Windows \<Rightarrow> CHR 0x5C | Posix \<Rightarrow> CHR ''/'')"

text \<open>
  Modelled from the spec: the value of \<^verbatim>\<open>const static std::string PATH_SEPARATOR\<close>, which the
  header declares ("OS File system path separator") and a translation unit outside the
  sources defines. The spec calls it the native separator that the append operator
  inserts: the one-character string of \<open>PATH_SEPARATOR_C\<close>.
\<close>

definition PATH_SEPARATOR :: "host \<Rightarrow> string" where
  "PATH_SEPARATOR h = [PATH_SEPARATOR_C h]"

text \<open>The foreign separator is the separator character the host does not use.\<close>

definition FOREIGN_SEPARATOR_C :: "host \<Rightarrow> char" where
  "FOREIGN_SEPARATOR_C h = (case h of Windows \<Rightarrow> CHR ''/'' | Posix \<Rightarrow> CHR 0x5C)"

subsection \<open>The normalizer\<close>

text \<open>
  Modelled from the spec: \<^verbatim>\<open>FilePath::NormalizePath\<close>, declared in the header ("Convert
  slashes to the correct OS slash; remove drive unit if is a *NIX OS") with its body
  outside the sources. The spec gives the algorithm: (1) replace every foreign separator
  by the native one; (2) on a host without drive letters, strip a leading two-character
  drive prefix of the form letter, colon, if present; (3) change nothing else; and it
  requires that normalizing an already-normalized path is a no-op. The header says the
  drive unit is removed, so step (2) strips for as long as a drive prefix is present: the
  normalized path of a host without drive letters never begins with one.
\<close>

definition to_native :: "host \<Rightarrow> char \<Rightarrow> char" where
  "to_native h c = (if c = FOREIGN_SEPARATOR_C h then PATH_SEPARATOR_C h else c)"

definition is_letter :: "char \<Rightarrow> bool" where
  "is_letter c =
     (let n = (of_char c :: nat) in (65 \<le> n \<and> n \<le> 90) \<or> (97 \<le> n \<and> n \<le> 122))"

fun has_drive_prefix :: "string \<Rightarrow> bool" where
  "has_drive_prefix (c # d # rest) = (is_letter c \<and> d = CHR '':'')"
| "has_drive_prefix _ = False"

fun strip_drive :: "string \<Rightarrow> string" where
  "strip_drive (c # d # rest) =
     (if is_letter c \<and> d = CHR '':'' then strip_drive rest else c # d # rest)"
| "strip_drive s = s"

definition normalize :: "host \<Rightarrow> string \<Rightarrow> string" where
  "normalize h s =
     (let t = map (to_native h) s
      in if h = Posix then strip_drive t else t)"

definition NormalizePath :: "host \<Rightarrow> FilePath \<Rightarrow> FilePath" where
  "NormalizePath h this = this\<lparr>path := normalize h (path this)\<rparr>"

subsection \<open>Constructors and observers\<close>

text \<open>\<^verbatim>\<open>explicit FilePath()\<close> builds the empty path.\<close>

definition FilePath_empty :: FilePath where
  "FilePath_empty = \<lparr>path = []\<rparr>"

text \<open>
  Modelled from the spec: the constructor \<^verbatim>\<open>FilePath(const std::string& other, pos = 0,
  count = npos)\<close> called with its default range, whose body is outside the sources. The
  spec: it builds the path from the string and immediately normalizes, raising no error.
\<close>

definition FilePath_string :: "host \<Rightarrow> string \<Rightarrow> FilePath" where
  "FilePath_string h other = NormalizePath h \<lparr>path = other\<rparr>"

definition toString :: "FilePath \<Rightarrow> string" where
  "toString this = path this"

definition empty :: "FilePath \<Rightarrow> bool" where
  "empty this = (path this = [])"

subsection \<open>Assignment, concatenation and append\<close>

text \<open>
  \<^verbatim>\<open>operator= (const FilePath& rhs)\<close> copies the string ("Not necessary to normalize");
  \<^verbatim>\<open>operator= (const std::string& str)\<close> stores the string and normalizes.
\<close>

definition op_assign :: "FilePath \<Rightarrow> FilePath \<Rightarrow> FilePath" where
  "op_assign this rhs = this\<lparr>path := path rhs\<rparr>"

definition op_assign_string :: "host \<Rightarrow> FilePath \<Rightarrow> string \<Rightarrow> FilePath" where
  "op_assign_string h this str = NormalizePath h (this\<lparr>path := str\<rparr>)"

text \<open>\<^verbatim>\<open>operator+= (const FilePath& rhs)\<close>: \<^verbatim>\<open>path += rhs.path; NormalizePath();\<close>\<close>

definition op_plus_assign :: "host \<Rightarrow> FilePath \<Rightarrow> FilePath \<Rightarrow> FilePath" where
  "op_plus_assign h this rhs = NormalizePath h (this\<lparr>path := path this @ path rhs\<rparr>)"

text \<open>
  \<^verbatim>\<open>operator/= (const FilePath& rhs)\<close>, branch by branch. \<^verbatim>\<open>front()\<close> and \<^verbatim>\<open>back()\<close> are
  only evaluated on non-empty strings, as the guards of the source ensure.
\<close>

definition op_div_assign :: "host \<Rightarrow> FilePath \<Rightarrow> FilePath \<Rightarrow> FilePath" where
  "op_div_assign h this rhs =
     NormalizePath h
       (if path this = [] then
          (if empty rhs \<or> hd (path rhs) \<noteq> PATH_SEPARATOR_C h
           then this\<lparr>path := path this @ (PATH_SEPARATOR h @ path rhs)\<rparr>
           else this\<lparr>path := path this @ path rhs\<rparr>)
        else
          (if last (path this) \<noteq> PATH_SEPARATOR_C h
                \<and> (empty rhs \<or> hd (path rhs) \<noteq> PATH_SEPARATOR_C h)
           then this\<lparr>path := path this @ (PATH_SEPARATOR h @ path rhs)\<rparr>
           else this\<lparr>path := path this @ path rhs\<rparr>))"

text \<open>
  The overloads taking \<^verbatim>\<open>const std::string&\<close> wrap the argument in \<^verbatim>\<open>FilePath(...)\<close> first.
\<close>

definition op_plus_assign_string :: "host \<Rightarrow> FilePath \<Rightarrow> string \<Rightarrow> FilePath" where
  "op_plus_assign_string h this lhs = op_plus_assign h this (FilePath_string h lhs)"

definition op_div_assign_string :: "host \<Rightarrow> FilePath \<Rightarrow> string \<Rightarrow> FilePath" where
  "op_div_assign_string h this rhs = op_div_assign h this (FilePath_string h rhs)"

text \<open>
  The free operators copy the left operand (\<^verbatim>\<open>FilePath(lhs)\<close>, the implicit copy
  constructor) and apply the compound assignment to the copy.
\<close>

definition op_plus :: "host \<Rightarrow> FilePath \<Rightarrow> FilePath \<Rightarrow> FilePath" where
  "op_plus h lhs rhs = op_plus_assign h (op_assign FilePath_empty lhs) rhs"

definition op_div :: "host \<Rightarrow> FilePath \<Rightarrow> FilePath \<Rightarrow> FilePath" where
  "op_div h lhs rhs = op_div_assign h (op_assign FilePath_empty lhs) rhs"

text \<open>
  Whether one of the two operands of an append already has the native separator at the
  junction: the left one at its end or the right one at its start.
\<close>

definition supplies_separator :: "host \<Rightarrow> string \<Rightarrow> string \<Rightarrow> bool" where
  "supplies_separator h l r =
     ((l \<noteq> [] \<and> last l = PATH_SEPARATOR_C h) \<or> (r \<noteq> [] \<and> hd r = PATH_SEPARATOR_C h))"

text \<open>
  The values a program can hold in a \<^verbatim>\<open>FilePath\<close>: those built by a constructor and
  those left by the assignment, concatenation and append operators applied to such
  values.
\<close>

inductive reachable :: "host \<Rightarrow> FilePath \<Rightarrow> bool" for h :: host where
  r_default: "reachable h FilePath_empty"
| r_string: "reachable h (FilePath_string h s)"
| r_assign: "reachable h a \<Longrightarrow> reachable h b \<Longrightarrow> reachable h (op_assign a b)"
| r_assign_string: "reachable h a \<Longrightarrow> reachable h (op_assign_string h a s)"
| r_plus_assign: "reachable h a \<Longrightarrow> reachable h b \<Longrightarrow> reachable h (op_plus_assign h a b)"
| r_plus_assign_string: "reachable h a \<Longrightarrow> reachable h (op_plus_assign_string h a s)"
| r_div_assign: "reachable h a \<Longrightarrow> reachable h b \<Longrightarrow> reachable h (op_div_assign h a b)"
| r_div_assign_string: "reachable h a \<Longrightarrow> reachable h (op_div_assign_string h a s)"
| r_plus: "reachable h a \<Longrightarrow> reachable h b \<Longrightarrow> reachable h (op_plus h a b)"
| r_div: "reachable h a \<Longrightarrow> reachable h b \<Longrightarrow> reachable h (op_div h a b)"

subsection \<open>The generic string form\<close>

text \<open>
  Modelled from the spec: \<^verbatim>\<open>FilePath::toGenericString\<close>, declared in the header ("Returns a
  generic string representation of a path (uses [backslash] as path separator ALWAYS)") with its
  body outside the sources. The spec: a representation with a fixed separator choice
  regardless of the host. Every separator character becomes the backslash the header names.
\<close>

definition GENERIC_SEPARATOR_C :: char where
  "GENERIC_SEPARATOR_C = CHR 0x5C"

definition is_separator :: "char \<Rightarrow> bool" where
  "is_separator c = (c = CHR ''/'' \<or> c = CHR 0x5C)"

definition toGenericString :: "FilePath \<Rightarrow> string" where
  "toGenericString this =
     map (\<lambda>c. if is_separator c then GENERIC_SEPARATOR_C else c) (path this)"

subsection \<open>Stream operators\<close>

text \<open>
  \<^verbatim>\<open>operator<<\<close> is \<^verbatim>\<open>return os << path.toString();\<close>. An output stream is the string of
  characters written to it so far (field width 0, the default).
\<close>

definition op_insert :: "string \<Rightarrow> FilePath \<Rightarrow> string" where
  "op_insert os p = os @ toString p"

text \<open>
  An input stream with whitespace skipping on and field width 0: the characters not yet
  read, the two state bits that formatted extraction sets, and the exception mask for
  them. \<^verbatim>\<open>setstate\<close> adds state bits and throws \<^verbatim>\<open>ios_base::failure\<close> when a bit of the
  mask is then set. \<^verbatim>\<open>is >> tmp\<close> on a \<^verbatim>\<open>std::string\<close> follows the C++ library: a stream
  that is not good only gets \<^verbatim>\<open>failbit\<close>; leading whitespace is skipped; reaching the end
  there sets \<^verbatim>\<open>eofbit\<close> and \<^verbatim>\<open>failbit\<close> and leaves the string alone; otherwise the string
  is replaced by the characters up to the next whitespace or the end of the input, and
  reaching the end sets \<^verbatim>\<open>eofbit\<close>.
\<close>

definition isspace :: "char \<Rightarrow> bool" where
  "isspace c = (c \<in> set [CHR 0x20, CHR 0x09, CHR 0x0A, CHR 0x0B, CHR 0x0C, CHR 0x0D])"

record istream =
  buffer :: string
  failbit :: bool
  eofbit :: bool
  exceptions_failbit :: bool
  exceptions_eofbit :: bool

datatype ios_error = Ios_failure

definition setstate :: "istream \<Rightarrow> bool \<Rightarrow> bool \<Rightarrow> ios_error + istream" where
  "setstate is f e =
     (let is' = is\<lparr>failbit := (failbit is \<or> f), eofbit := (eofbit is \<or> e)\<rparr>
      in if (failbit is' \<and> exceptions_failbit is') \<or> (eofbit is' \<and> exceptions_eofbit is')
         then Inl Ios_failure else Inr is')"

definition extract_string :: "istream \<Rightarrow> string \<Rightarrow> ios_error + istream \<times> string" where
  "extract_string is str =
     (if failbit is \<or> eofbit is then
        (case setstate is True False of Inl e \<Rightarrow> Inl e | Inr is' \<Rightarrow> Inr (is', str))
      else
        (let rest = dropWhile isspace (buffer is)
         in if rest = [] then
              (case setstate (is\<lparr>buffer := []\<rparr>) True True of
                 Inl e \<Rightarrow> Inl e | Inr is' \<Rightarrow> Inr (is', str))
            else
              (let token = takeWhile (\<lambda>c. \<not> isspace c) rest;
                   rest' = dropWhile (\<lambda>c. \<not> isspace c) rest
               in case setstate (is\<lparr>buffer := rest'\<rparr>) False (rest' = []) of
                    Inl e \<Rightarrow> Inl e | Inr is' \<Rightarrow> Inr (is', token))))"

text \<open>
  \<^verbatim>\<open>operator>>\<close> is declared to return the stream, and its whole body is
  \<^verbatim>\<open>std::string tmp; is >> tmp; path = FilePath(tmp);\<close>: there is no \<^verbatim>\<open>return\<close> statement,
  so after the assignment control flows off the end of a value-returning function, which
  is undefined behaviour. A call therefore ends in one of two faults: the exception of
  the stream, or the end of the body, reached with the stream and the target as the
  statements left them. \<open>Inr\<close> would be a call that returns.
\<close>

datatype 's fault = Throws ios_error | Flows_off_end 's

definition op_extract ::
  "host \<Rightarrow> istream \<Rightarrow> FilePath \<Rightarrow> (istream \<times> FilePath) fault + istream \<times> FilePath" where
  "op_extract h is target =
     (case extract_string is [] of
        Inl e \<Rightarrow> Inl (Throws e)
      | Inr (is', tmp) \<Rightarrow> Inl (Flows_off_end (is', op_assign target (FilePath_string h tmp))))"

subsection \<open>Resolver and process cache\<close>

text \<open>
  The private static members \<^verbatim>\<open>settings_folder\<close>, \<^verbatim>\<open>udata_folder\<close>, \<^verbatim>\<open>cache_folder\<close> and
  \<^verbatim>\<open>assets_base\<close> are strings; an empty string is a value not yet computed.
\<close>

record cache =
  settings_folder :: string
  udata_folder :: string
  cache_folder :: string
  assets_base :: string

text \<open>
  Modelled from the spec: the host the resolver queries, all of it outside the sources.
  \<open>program_query\<close> is the host-specific query for the running executable and the three
  user-directory queries are the environment queries for the OS-conventional settings,
  data and cache directories of the application; \<open>None\<close> is a query that fails.
  \<open>program_dir\<close> is the base directory of \<^verbatim>\<open>GetProgramPath()\<close>, and \<open>dir_exists\<close> the
  directory existence check.
\<close>

record os_env =
  program_query :: "string option"
  settings_query :: "string option"
  udata_query :: "string option"
  cache_query :: "string option"
  program_dir :: FilePath
  dir_exists :: "string \<Rightarrow> bool"

text \<open>
  Modelled from the spec: \<^verbatim>\<open>GetProgramPath\<close> ("string with the full path. Empty string if
  fails" in the header): the path the host reports, or an empty path value.
\<close>

definition GetProgramPath :: "host \<Rightarrow> os_env \<Rightarrow> FilePath" where
  "GetProgramPath h env =
     (case program_query env of None \<Rightarrow> FilePath_empty | Some s \<Rightarrow> FilePath_string h s)"

text \<open>
  Modelled from the spec: \<^verbatim>\<open>GetUserSettingsPath\<close>, \<^verbatim>\<open>GetUserDataPath\<close> and
  \<^verbatim>\<open>GetUserCachePath\<close>: each lazily computes and caches its directory and returns an
  empty path value if the environment query fails.
\<close>

definition GetUserSettingsPath :: "host \<Rightarrow> os_env \<Rightarrow> cache \<Rightarrow> FilePath \<times> cache" where
  "GetUserSettingsPath h env c =
     (if settings_folder c \<noteq> [] then (\<lparr>path = settings_folder c\<rparr>, c)
      else (case settings_query env of
              None \<Rightarrow> (FilePath_empty, c)
            | Some d \<Rightarrow>
                (let p = FilePath_string h d in (p, c\<lparr>settings_folder := path p\<rparr>))))"

definition GetUserDataPath :: "host \<Rightarrow> os_env \<Rightarrow> cache \<Rightarrow> FilePath \<times> cache" where
  "GetUserDataPath h env c =
     (if udata_folder c \<noteq> [] then (\<lparr>path = udata_folder c\<rparr>, c)
      else (case udata_query env of
              None \<Rightarrow> (FilePath_empty, c)
            | Some d \<Rightarrow>
                (let p = FilePath_string h d in (p, c\<lparr>udata_folder := path p\<rparr>))))"

definition GetUserCachePath :: "host \<Rightarrow> os_env \<Rightarrow> cache \<Rightarrow> FilePath \<times> cache" where
  "GetUserCachePath h env c =
     (if cache_folder c \<noteq> [] then (\<lparr>path = cache_folder c\<rparr>, c)
      else (case cache_query env of
              None \<Rightarrow> (FilePath_empty, c)
            | Some d \<Rightarrow>
                (let p = FilePath_string h d in (p, c\<lparr>cache_folder := path p\<rparr>))))"

text \<open>
  Modelled from the spec: \<^verbatim>\<open>GetAssetsBasePath\<close> and \<^verbatim>\<open>SetAssetsBasePath\<close>. The probe
  candidates, in priority order, are \<^verbatim>\<open>./assets/\<close>, then \<^verbatim>\<open>assets/\<close>, \<^verbatim>\<open>../assets/\<close> and
  \<^verbatim>\<open>../share/assets/\<close> under the program directory, joined with the append operator.
  A cached value is returned as it is; otherwise the first candidate that exists as a
  directory is cached and returned; if none exists the result is the empty path value
  and the cache is left as it was. The setter replaces the cache unconditionally.
\<close>

definition candidates :: "host \<Rightarrow> os_env \<Rightarrow> FilePath list" where
  "candidates h env =
     [FilePath_string h ''./assets/'',
      op_div h (program_dir env) (FilePath_string h ''assets/''),
      op_div h (program_dir env) (FilePath_string h ''../assets/''),
      op_div h (program_dir env) (FilePath_string h ''../share/assets/'')]"

definition GetAssetsBasePath :: "host \<Rightarrow> os_env \<Rightarrow> cache \<Rightarrow> FilePath \<times> cache" where
  "GetAssetsBasePath h env c =
     (if assets_base c \<noteq> [] then (\<lparr>path = assets_base c\<rparr>, c)
      else (case find (\<lambda>p. dir_exists env (path p)) (candidates h env) of
              None \<Rightarrow> (FilePath_empty, c)
            | Some p \<Rightarrow> (p, c\<lparr>assets_base := path p\<rparr>)))"

definition SetAssetsBasePath :: "FilePath \<Rightarrow> cache \<Rightarrow> cache" where
  "SetAssetsBasePath p c = c\<lparr>assets_base := path p\<rparr>"

text \<open>
  The cache at program start (static strings are empty), and an example host for
  concrete evaluation: a POSIX installation under \<^verbatim>\<open>/opt/tec\<close> where, of the probe
  candidates, only \<^verbatim>\<open>/opt/tec/bin/../assets/\<close> exists and no user-directory query
  succeeds.
\<close>

definition initial_cache :: cache where
  "initial_cache =
     \<lparr>settings_folder = [], udata_folder = [], cache_folder = [], assets_base = []\<rparr>"

definition example_env :: os_env where
  "example_env =
     \<lparr>program_query = Some ''/opt/tec/bin/tec'', settings_query = None, udata_query = None,
      cache_query = None, program_dir = FilePath_string Posix ''/opt/tec/bin/'',
      dir_exists = (\<lambda>d. d = ''/opt/tec/bin/../assets/'')\<rparr>"

section \<open>Basic facts\<close>

lemma separators_differ: "FOREIGN_SEPARATOR_C h \<noteq> PATH_SEPARATOR_C h"
  by (cases h) (simp_all add: FOREIGN_SEPARATOR_C_def PATH_SEPARATOR_C_def)

lemma to_native_not_foreign: "to_native h c \<noteq> FOREIGN_SEPARATOR_C h"
  using separators_differ [of h] by (simp add: to_native_def)

lemma to_native_idem: "to_native h (to_native h c) = to_native h c"
  using separators_differ [of h] by (simp add: to_native_def)

lemma to_native_separator: "to_native h (PATH_SEPARATOR_C h) = PATH_SEPARATOR_C h"
  using separators_differ [of h] by (auto simp add: to_native_def)

lemma map_to_native_id:
  "FOREIGN_SEPARATOR_C h \<notin> set s \<Longrightarrow> map (to_native h) s = s"
  by (induction s) (auto simp add: to_native_def)

lemma foreign_not_in_map: "FOREIGN_SEPARATOR_C h \<notin> set (map (to_native h) s)"
proof
  assume "FOREIGN_SEPARATOR_C h \<in> set (map (to_native h) s)"
  then obtain c where "to_native h c = FOREIGN_SEPARATOR_C h" by auto
  with to_native_not_foreign [of h c] show False by simp
qed

lemma set_strip_drive: "set (strip_drive s) \<subseteq> set s"
  by (induction s rule: strip_drive.induct) auto


lemma strip_drive_fixed: "\<not> has_drive_prefix s \<Longrightarrow> strip_drive s = s"
  by (cases s rule: has_drive_prefix.cases) auto

lemma strip_drive_nonempty:
  "s \<noteq> [] \<Longrightarrow> last s \<noteq> CHR '':'' \<Longrightarrow> strip_drive s \<noteq> []"
  by (induction s rule: strip_drive.induct) (auto split: if_splits)

lemma normalize_no_foreign: "FOREIGN_SEPARATOR_C h \<notin> set (normalize h s)"
proof -
  have "set (normalize h s) \<subseteq> set (map (to_native h) s)"
    using set_strip_drive [of "map (to_native h) s"]
    by (cases h) (simp_all add: normalize_def Let_def)
  with foreign_not_in_map [of h s] show ?thesis by blast
qed

lemma separator_not_letter: "\<not> is_letter (PATH_SEPARATOR_C h)"
  by (cases h) (simp_all add: is_letter_def PATH_SEPARATOR_C_def)

lemma separator_not_colon: "PATH_SEPARATOR_C h \<noteq> CHR '':''"
  by (cases h) (simp_all add: PATH_SEPARATOR_C_def)

lemma no_drive_prefix_separator_first:
  "\<not> has_drive_prefix (PATH_SEPARATOR_C h # s)"
  using separator_not_letter [of h] by (cases s) simp_all

lemma normalize_separator_first:
  "normalize h (PATH_SEPARATOR_C h # s) = PATH_SEPARATOR_C h # map (to_native h) s"
  by (simp add: normalize_def Let_def to_native_separator strip_drive_fixed
      no_drive_prefix_separator_first)

lemma normalize_Windows: "normalize Windows s = map (to_native Windows) s"
  by (simp add: normalize_def)


lemma has_drive_prefix_map:
  "has_drive_prefix (map (to_native h) s) = has_drive_prefix s"
proof (cases s)
  case Nil
  then show ?thesis by simp
next
  case (Cons c t)
  show ?thesis
  proof (cases t)
    case Nil
    with Cons show ?thesis by simp
  next
    case (Cons d u)
    have "is_letter (to_native h c) = is_letter c"
      by (cases h)
        (auto simp add: to_native_def is_letter_def FOREIGN_SEPARATOR_C_def PATH_SEPARATOR_C_def)
    moreover have "(to_native h d = CHR '':'') = (d = CHR '':'')"
      by (cases h) (auto simp add: to_native_def FOREIGN_SEPARATOR_C_def PATH_SEPARATOR_C_def)
    ultimately show ?thesis using \<open>s = c # t\<close> Cons by simp
  qed
qed


lemma map_to_native_normalize: "map (to_native h) (normalize h s) = normalize h s"
  by (rule map_to_native_id) (rule normalize_no_foreign)



lemma normalize_nonempty:
  "s \<noteq> [] \<Longrightarrow> last s = PATH_SEPARATOR_C h \<Longrightarrow> normalize h s \<noteq> []"
proof -
  assume n: "s \<noteq> []" and l: "last s = PATH_SEPARATOR_C h"
  let ?t = "map (to_native h) s"
  from n have t: "?t \<noteq> []" by simp
  from n l have "last ?t = PATH_SEPARATOR_C h" by (simp add: last_map to_native_separator)
  then have "last ?t \<noteq> CHR '':''" by (simp add: separator_not_colon)
  with t have "strip_drive ?t \<noteq> []" by (rule strip_drive_nonempty)
  with t show ?thesis by (cases h) (simp_all add: normalize_def Let_def)
qed

subsection \<open>What each operator stores\<close>

lemmas path_defs =
  op_div_def op_div_assign_def op_plus_def op_plus_assign_def op_assign_def
  op_assign_string_def op_plus_assign_string_def op_div_assign_string_def
  FilePath_string_def FilePath_empty_def NormalizePath_def empty_def toString_def
  PATH_SEPARATOR_def

lemmas char_defs =
  normalize_def to_native_def PATH_SEPARATOR_C_def FOREIGN_SEPARATOR_C_def is_letter_def

lemma FilePath_string_path: "path (FilePath_string h s) = normalize h s"
  by (simp add: FilePath_string_def NormalizePath_def)

lemma op_div_assign_path:
  "path (op_div_assign h l r) =
     normalize h
       (path l @ (if supplies_separator h (path l) (path r) then [] else PATH_SEPARATOR h)
          @ path r)"
  by (simp add: op_div_assign_def NormalizePath_def supplies_separator_def empty_def)

lemma op_div_path: "path (op_div h l r) = path (op_div_assign h l r)"
  by (simp add: op_div_def op_div_assign_def op_assign_def FilePath_empty_def NormalizePath_def)

lemma op_plus_assign_path: "path (op_plus_assign h l r) = normalize h (path l @ path r)"
  by (simp add: op_plus_assign_def NormalizePath_def)

lemma op_plus_path: "path (op_plus h l r) = normalize h (path l @ path r)"
  by (simp add: op_plus_def op_plus_assign_def op_assign_def FilePath_empty_def
      NormalizePath_def)

section \<open>The append operator\<close>

text \<open>
  Claim C1, as the code has it. The append operators \<^verbatim>\<open>/=\<close> and \<^verbatim>\<open>/\<close> insert the native
  separator at the junction exactly when neither operand supplies one there, and then
  normalize; no separator is ever removed. So \<^verbatim>\<open>Path("a") / Path("b")\<close> and
  \<^verbatim>\<open>Path("a/") / Path("b")\<close> both give \<^verbatim>\<open>a/b\<close> with the host separator, while
  \<^verbatim>\<open>Path("a/") / Path("/b")\<close>, where both operands supply one, keeps both separators.
\<close>

theorem append_junction:
  "path (op_div_assign h l r) =
     normalize h
       (path l @ (if supplies_separator h (path l) (path r) then [] else PATH_SEPARATOR h)
          @ path r)
   \<and> path (op_div h l r) = path (op_div_assign h l r)
   \<and> path (op_div h (FilePath_string h ''a'') (FilePath_string h ''b''))
       = ''a'' @ PATH_SEPARATOR h @ ''b''
   \<and> path (op_div h (FilePath_string h ''a/'') (FilePath_string h ''b''))
       = ''a'' @ PATH_SEPARATOR h @ ''b''
   \<and> path (op_div h (FilePath_string h ''a/'') (FilePath_string h ''/b''))
       = ''a'' @ PATH_SEPARATOR h @ PATH_SEPARATOR h @ ''b''"
proof (intro conjI)
  show "path (op_div_assign h l r) =
     normalize h
       (path l @ (if supplies_separator h (path l) (path r) then [] else PATH_SEPARATOR h)
          @ path r)"
    by (rule op_div_assign_path)
  show "path (op_div h l r) = path (op_div_assign h l r)"
    by (rule op_div_path)
  show "path (op_div h (FilePath_string h ''a'') (FilePath_string h ''b''))
       = ''a'' @ PATH_SEPARATOR h @ ''b''"
    by (cases h) (simp_all add: path_defs char_defs)
  show "path (op_div h (FilePath_string h ''a/'') (FilePath_string h ''b''))
       = ''a'' @ PATH_SEPARATOR h @ ''b''"
    by (cases h) (simp_all add: path_defs char_defs)
  show "path (op_div h (FilePath_string h ''a/'') (FilePath_string h ''/b''))
       = ''a'' @ PATH_SEPARATOR h @ PATH_SEPARATOR h @ ''b''"
    by (cases h) (simp_all add: path_defs char_defs)
qed

text \<open>The theorem at two concrete operands on a POSIX host.\<close>

theorem append_junction_witness:
  "path (op_div Posix (FilePath_string Posix ''usr'') (FilePath_string Posix ''lib''))
     = ''usr/lib''"
  using append_junction [of Posix "FilePath_string Posix ''usr''" "FilePath_string Posix ''lib''"]
  by (simp add: path_defs char_defs supplies_separator_def)

text \<open>
  The claim as the spec words it fails: on a POSIX host \<^verbatim>\<open>Path("a/") / Path("/b")\<close> is
  \<^verbatim>\<open>a//b\<close>, with a doubled separator, and differs from \<^verbatim>\<open>Path("a") / Path("b")\<close>.
\<close>

theorem append_dedup_counterexample:
  "path (op_div Posix (FilePath_string Posix ''a/'') (FilePath_string Posix ''/b'')) = ''a//b''
   \<and> path (op_div Posix (FilePath_string Posix ''a'') (FilePath_string Posix ''b'')) = ''a/b''"
  by (simp add: path_defs char_defs)

text \<open>
  Claim C2. With an empty left operand the append operator prepends the native separator
  exactly when the right operand does not begin with it; the right operand's characters
  follow, normalized. For every right operand the result is that optional separator
  followed by the operand with its foreign separators made native.
\<close>

theorem append_empty_left:
  "path (op_div_assign h FilePath_empty r) =
     (if path r \<noteq> [] \<and> hd (path r) = PATH_SEPARATOR_C h then [] else PATH_SEPARATOR h)
       @ map (to_native h) (path r)
   \<and> path (op_div h FilePath_empty r) = path (op_div_assign h FilePath_empty r)"
proof (intro conjI)
  show "path (op_div_assign h FilePath_empty r) =
     (if path r \<noteq> [] \<and> hd (path r) = PATH_SEPARATOR_C h then [] else PATH_SEPARATOR h)
       @ map (to_native h) (path r)"
  proof (cases "path r \<noteq> [] \<and> hd (path r) = PATH_SEPARATOR_C h")
    case True
    then obtain s where s: "path r = PATH_SEPARATOR_C h # s" by (cases "path r") auto
    then show ?thesis
      by (simp add: op_div_assign_def NormalizePath_def empty_def FilePath_empty_def
          normalize_separator_first to_native_separator)
  next
    case False
    then show ?thesis
      by (auto simp add: op_div_assign_def NormalizePath_def empty_def FilePath_empty_def
          PATH_SEPARATOR_def normalize_separator_first)
  qed
  show "path (op_div h FilePath_empty r) = path (op_div_assign h FilePath_empty r)"
    by (rule op_div_path)
qed

text \<open>The theorem at the right operands \<^verbatim>\<open>b\<close> and \<^verbatim>\<open>/b\<close> on a POSIX host.\<close>

theorem append_empty_left_witness:
  "path (op_div_assign Posix FilePath_empty (FilePath_string Posix ''b'')) = ''/b''
   \<and> path (op_div_assign Posix FilePath_empty (FilePath_string Posix ''/b'')) = ''/b''"
  using append_empty_left [of Posix "FilePath_string Posix ''b''"]
    append_empty_left [of Posix "FilePath_string Posix ''/b''"]
  by (simp add: path_defs char_defs)

section \<open>Concatenation\<close>

text \<open>
  Claim C3. Concatenation (\<^verbatim>\<open>+=\<close> and \<^verbatim>\<open>+\<close>) stores the left string followed by the right
  string, with nothing inserted, and normalizes; append inserts a separator.
  \<^verbatim>\<open>Path("a") + Path("b")\<close> is \<^verbatim>\<open>ab\<close> and \<^verbatim>\<open>Path("a") / Path("b")\<close> is \<^verbatim>\<open>a/b\<close> with the
  host separator.
\<close>

theorem concat_vs_append:
  "path (op_plus_assign h l r) = normalize h (path l @ path r)
   \<and> path (op_plus h l r) = normalize h (path l @ path r)
   \<and> path (op_plus h (FilePath_string h ''a'') (FilePath_string h ''b'')) = ''ab''
   \<and> path (op_div h (FilePath_string h ''a'') (FilePath_string h ''b''))
       = ''a'' @ PATH_SEPARATOR h @ ''b''"
proof (intro conjI)
  show "path (op_plus_assign h l r) = normalize h (path l @ path r)"
    by (rule op_plus_assign_path)
  show "path (op_plus h l r) = normalize h (path l @ path r)"
    by (rule op_plus_path)
  show "path (op_plus h (FilePath_string h ''a'') (FilePath_string h ''b'')) = ''ab''"
    by (cases h) (simp_all add: path_defs char_defs)
  show "path (op_div h (FilePath_string h ''a'') (FilePath_string h ''b''))
       = ''a'' @ PATH_SEPARATOR h @ ''b''"
    by (cases h) (simp_all add: path_defs char_defs)
qed

section \<open>Normalization\<close>


section \<open>The separator invariant\<close>

lemma reachable_no_foreign:
  "reachable h p \<Longrightarrow> FOREIGN_SEPARATOR_C h \<notin> set (path p)"
proof (induction rule: reachable.induct)
  case r_default
  show ?case by (simp add: FilePath_empty_def)
next
  case (r_string s)
  show ?case by (simp add: FilePath_string_path normalize_no_foreign)
next
  case (r_assign a b)
  then show ?case by (simp add: op_assign_def)
next
  case (r_assign_string a s)
  show ?case by (simp add: op_assign_string_def NormalizePath_def normalize_no_foreign)
next
  case (r_plus_assign a b)
  show ?case by (simp add: op_plus_assign_path normalize_no_foreign)
next
  case (r_plus_assign_string a s)
  show ?case
    by (simp add: op_plus_assign_string_def op_plus_assign_path normalize_no_foreign)
next
  case (r_div_assign a b)
  show ?case by (simp only: op_div_assign_path) (rule normalize_no_foreign)
next
  case (r_div_assign_string a s)
  show ?case
    by (simp only: op_div_assign_string_def op_div_assign_path) (rule normalize_no_foreign)
next
  case (r_plus a b)
  show ?case by (simp add: op_plus_path normalize_no_foreign)
next
  case (r_div a b)
  show ?case by (simp only: op_div_path op_div_assign_path) (rule normalize_no_foreign)
qed

text \<open>
  Claim C5. Every path value a program can reach through the constructors and through
  assignment, concatenation and append holds no foreign separator. The operators that
  build a new string normalize it before returning; copy-assignment from another path
  value stores exactly the string of its source, without normalizing, and keeps the
  invariant because its source has it.
\<close>

theorem separator_invariant:
  "(reachable h p \<longrightarrow> FOREIGN_SEPARATOR_C h \<notin> set (path p))
   \<and> path (op_assign a b) = path b
   \<and> (FOREIGN_SEPARATOR_C h \<notin> set (path b)
        \<longrightarrow> FOREIGN_SEPARATOR_C h \<notin> set (path (op_assign a b)))"
  by (simp add: reachable_no_foreign op_assign_def)

text \<open>
  The theorem at a value built on a POSIX host from a string with a backslash, by an
  append and a copy-assignment.
\<close>

theorem separator_invariant_witness:
  "reachable Posix
     (op_assign FilePath_empty
        (op_div Posix (FilePath_string Posix [CHR ''a'', CHR 0x5C, CHR ''b''])
           (FilePath_string Posix ''c'')))
   \<and> path (op_assign FilePath_empty
        (op_div Posix (FilePath_string Posix [CHR ''a'', CHR 0x5C, CHR ''b''])
           (FilePath_string Posix ''c''))) = ''a/b/c''
   \<and> FOREIGN_SEPARATOR_C Posix \<notin> set ''a/b/c''"
proof -
  let ?q = "op_div Posix (FilePath_string Posix [CHR ''a'', CHR 0x5C, CHR ''b''])
           (FilePath_string Posix ''c'')"
  have r: "reachable Posix (op_assign FilePath_empty ?q)"
    by (intro reachable.intros)
  have v: "path ?q = ''a/b/c''"
    by (simp add: path_defs char_defs)
  from separator_invariant
    [where h = Posix and p = "op_assign FilePath_empty ?q" and a = FilePath_empty and b = ?q]
    r v
  show ?thesis by (simp add: op_assign_def FOREIGN_SEPARATOR_C_def)
qed

section \<open>Appending the empty path\<close>





section \<open>The assets base path and its cache\<close>

lemma op_div_nonempty:
  "path r \<noteq> [] \<Longrightarrow> last (path r) = PATH_SEPARATOR_C h \<Longrightarrow> path (op_div h l r) \<noteq> []"
proof -
  assume n: "path r \<noteq> []" and e: "last (path r) = PATH_SEPARATOR_C h"
  let ?raw = "path l @ (if supplies_separator h (path l) (path r) then [] else PATH_SEPARATOR h)
                @ path r"
  from n have "?raw \<noteq> []" by simp
  moreover from n e have "last ?raw = PATH_SEPARATOR_C h" by simp
  ultimately have "normalize h ?raw \<noteq> []" by (rule normalize_nonempty)
  then show ?thesis by (simp only: op_div_path op_div_assign_path) simp
qed

lemma candidate_nonempty:
  "p \<in> set (candidates h env) \<Longrightarrow> path p \<noteq> []"
proof -
  assume m: "p \<in> set (candidates h env)"
  have a: "path (FilePath_string h ''./assets/'') \<noteq> []"
    by (cases h) (simp_all add: path_defs char_defs)
  have "path (FilePath_string h ''assets/'') \<noteq> []"
    and "last (path (FilePath_string h ''assets/'')) = PATH_SEPARATOR_C h"
    by (cases h; simp add: path_defs char_defs)+
  then have b: "path (op_div h l (FilePath_string h ''assets/'')) \<noteq> []" for l
    by (rule op_div_nonempty)
  have "path (FilePath_string h ''../assets/'') \<noteq> []"
    and "last (path (FilePath_string h ''../assets/'')) = PATH_SEPARATOR_C h"
    by (cases h; simp add: path_defs char_defs)+
  then have c: "path (op_div h l (FilePath_string h ''../assets/'')) \<noteq> []" for l
    by (rule op_div_nonempty)
  have "path (FilePath_string h ''../share/assets/'') \<noteq> []"
    and "last (path (FilePath_string h ''../share/assets/'')) = PATH_SEPARATOR_C h"
    by (cases h; simp add: path_defs char_defs)+
  then have d: "path (op_div h l (FilePath_string h ''../share/assets/'')) \<noteq> []" for l
    by (rule op_div_nonempty)
  from m a b c d show ?thesis by (auto simp add: candidates_def)
qed

lemma find_Some_member: "find P xs = Some x \<Longrightarrow> x \<in> set xs"
  by (induction xs) (auto split: if_splits)

lemma example_candidates:
  "candidates Posix example_env =
     [\<lparr>path = ''./assets/''\<rparr>, \<lparr>path = ''/opt/tec/bin/assets/''\<rparr>,
      \<lparr>path = ''/opt/tec/bin/../assets/''\<rparr>, \<lparr>path = ''/opt/tec/bin/../share/assets/''\<rparr>]"
  by (simp add: candidates_def example_env_def path_defs char_defs)

text \<open>
  Claim C6. When the cache is unset and the probe finds a candidate directory, that
  candidate is returned and stored, and every later call returns it from the cache
  whatever the file system then holds. When no candidate exists the result is the empty
  path value and the cache is unchanged, so a later call probes again. A set cache is
  returned and left alone; only the setter and a successful probe write the
  assets base: the user-directory queries leave it as it is.
\<close>

theorem assets_base_cache:
  "(assets_base c = [] \<and> find (\<lambda>p. dir_exists env (path p)) (candidates h env) = Some p
      \<longrightarrow> GetAssetsBasePath h env c = (p, c\<lparr>assets_base := path p\<rparr>)
          \<and> (\<forall>env'. GetAssetsBasePath h env' (c\<lparr>assets_base := path p\<rparr>)
                       = (p, c\<lparr>assets_base := path p\<rparr>)))
   \<and> (assets_base c = [] \<and> (\<forall>q \<in> set (candidates h env). \<not> dir_exists env (path q))
      \<longrightarrow> GetAssetsBasePath h env c = (FilePath_empty, c))
   \<and> (assets_base c \<noteq> [] \<longrightarrow> GetAssetsBasePath h env c = (\<lparr>path = assets_base c\<rparr>, c))
   \<and> assets_base (SetAssetsBasePath q c) = path q
   \<and> assets_base (snd (GetUserSettingsPath h env c)) = assets_base c
   \<and> assets_base (snd (GetUserDataPath h env c)) = assets_base c
   \<and> assets_base (snd (GetUserCachePath h env c)) = assets_base c"
proof (intro conjI impI)
  assume a: "assets_base c = []
      \<and> find (\<lambda>p. dir_exists env (path p)) (candidates h env) = Some p"
  then show "GetAssetsBasePath h env c = (p, c\<lparr>assets_base := path p\<rparr>)"
    by (simp add: GetAssetsBasePath_def)
  from a have "p \<in> set (candidates h env)" by (auto dest: find_Some_member)
  then have "path p \<noteq> []" by (rule candidate_nonempty)
  then show "\<forall>env'. GetAssetsBasePath h env' (c\<lparr>assets_base := path p\<rparr>)
                       = (p, c\<lparr>assets_base := path p\<rparr>)"
    by (simp add: GetAssetsBasePath_def)
next
  assume "assets_base c = [] \<and> (\<forall>q \<in> set (candidates h env). \<not> dir_exists env (path q))"
  then have "assets_base c = []"
    and "find (\<lambda>p. dir_exists env (path p)) (candidates h env) = None"
    by (simp_all add: find_None_iff)
  then show "GetAssetsBasePath h env c = (FilePath_empty, c)"
    by (simp add: GetAssetsBasePath_def)
next
  assume "assets_base c \<noteq> []"
  then show "GetAssetsBasePath h env c = (\<lparr>path = assets_base c\<rparr>, c)"
    by (simp add: GetAssetsBasePath_def)
next
  show "assets_base (SetAssetsBasePath q c) = path q"
    by (simp add: SetAssetsBasePath_def)
next
  show "assets_base (snd (GetUserSettingsPath h env c)) = assets_base c"
    by (simp add: GetUserSettingsPath_def Let_def split: option.split)
next
  show "assets_base (snd (GetUserDataPath h env c)) = assets_base c"
    by (simp add: GetUserDataPath_def Let_def split: option.split)
next
  show "assets_base (snd (GetUserCachePath h env c)) = assets_base c"
    by (simp add: GetUserCachePath_def Let_def split: option.split)
qed

text \<open>
  The theorem on the example host: the third candidate is found and cached, it is still
  returned after every directory has disappeared, and with nothing to find and nothing
  cached the result is empty and the cache stays unset.
\<close>

theorem assets_base_cache_witness:
  "GetAssetsBasePath Posix example_env initial_cache
     = (\<lparr>path = ''/opt/tec/bin/../assets/''\<rparr>,
        initial_cache\<lparr>assets_base := ''/opt/tec/bin/../assets/''\<rparr>)
   \<and> GetAssetsBasePath Posix (example_env\<lparr>dir_exists := (\<lambda>d. False)\<rparr>)
        (initial_cache\<lparr>assets_base := ''/opt/tec/bin/../assets/''\<rparr>)
     = (\<lparr>path = ''/opt/tec/bin/../assets/''\<rparr>,
        initial_cache\<lparr>assets_base := ''/opt/tec/bin/../assets/''\<rparr>)
   \<and> GetAssetsBasePath Posix (example_env\<lparr>dir_exists := (\<lambda>d. False)\<rparr>) initial_cache
     = (FilePath_empty, initial_cache)"
proof -
  have f: "find (\<lambda>p. dir_exists example_env (path p)) (candidates Posix example_env)
      = Some \<lparr>path = ''/opt/tec/bin/../assets/''\<rparr>"
    by (simp add: example_candidates) (simp add: example_env_def)
  have e: "assets_base initial_cache = []" by (simp add: initial_cache_def)
  have n: "\<forall>q \<in> set (candidates Posix (example_env\<lparr>dir_exists := (\<lambda>d. False)\<rparr>)).
      \<not> dir_exists (example_env\<lparr>dir_exists := (\<lambda>d. False)\<rparr>) (path q)"
    by simp
  from assets_base_cache
    [where c = initial_cache and env = example_env and h = Posix
      and p = "\<lparr>path = ''/opt/tec/bin/../assets/''\<rparr>"]
    assets_base_cache
    [where c = initial_cache and env = "example_env\<lparr>dir_exists := (\<lambda>d. False)\<rparr>"
      and h = Posix]
    f e n
  show ?thesis by simp
qed

section \<open>Platform queries that fail\<close>

text \<open>
  Claim C7. A platform query that cannot be resolved is signalled by an empty path
  value: \<^verbatim>\<open>GetProgramPath\<close> when the executable query fails, and \<^verbatim>\<open>GetUserSettingsPath\<close>,
  \<^verbatim>\<open>GetUserDataPath\<close> and \<^verbatim>\<open>GetUserCachePath\<close> when nothing is cached and the environment
  query fails. Each is a total function returning a path value: there is no error
  result, and the failure is not cached.
\<close>

theorem failed_query_empty:
  "(program_query env = None \<longrightarrow> empty (GetProgramPath h env))
   \<and> (settings_folder c = [] \<and> settings_query env = None
        \<longrightarrow> GetUserSettingsPath h env c = (FilePath_empty, c))
   \<and> (udata_folder c = [] \<and> udata_query env = None
        \<longrightarrow> GetUserDataPath h env c = (FilePath_empty, c))
   \<and> (cache_folder c = [] \<and> cache_query env = None
        \<longrightarrow> GetUserCachePath h env c = (FilePath_empty, c))
   \<and> empty FilePath_empty"
  by (simp add: GetProgramPath_def GetUserSettingsPath_def GetUserDataPath_def
      GetUserCachePath_def empty_def FilePath_empty_def)

text \<open>The theorem on the example host, where every user-directory query fails.\<close>

theorem failed_query_empty_witness:
  "empty (GetProgramPath Posix (example_env\<lparr>program_query := None\<rparr>))
   \<and> GetUserSettingsPath Posix example_env initial_cache = (FilePath_empty, initial_cache)
   \<and> GetUserDataPath Posix example_env initial_cache = (FilePath_empty, initial_cache)
   \<and> GetUserCachePath Posix example_env initial_cache = (FilePath_empty, initial_cache)"
  using failed_query_empty
      [where env = "example_env\<lparr>program_query := None\<rparr>" and h = Posix
        and c = initial_cache]
    failed_query_empty [where env = example_env and h = Posix and c = initial_cache]
  by (simp add: example_env_def initial_cache_def)

section \<open>Stream insertion and extraction\<close>

text \<open>
  Claim C8, against the code. Stream insertion writes exactly \<^verbatim>\<open>toString()\<close> of the
  path. Stream extraction reads one whitespace-delimited token and assigns the path
  value built from it to the target, but it never returns: every call either throws the
  stream's exception or flows off the end of the function body. On a POSIX host, at the
  input blank, \<^verbatim>\<open>a\b\<close>, blank, \<^verbatim>\<open>c\<close> with no exception mask, the target holds \<^verbatim>\<open>a/b\<close>
  and the stream holds the rest of the input when control flows off the end.
\<close>

theorem stream_extraction_no_return:
  "op_insert os p = os @ toString p
   \<and> op_extract h strm target \<noteq> Inr r
   \<and> op_extract Posix
        \<lparr>buffer = [CHR 0x20, CHR ''a'', CHR 0x5C, CHR ''b'', CHR 0x20, CHR ''c''],
         failbit = False, eofbit = False,
         exceptions_failbit = False, exceptions_eofbit = False\<rparr> FilePath_empty
       = Inl (Flows_off_end
               (\<lparr>buffer = '' c'', failbit = False, eofbit = False,
                 exceptions_failbit = False, exceptions_eofbit = False\<rparr>,
                \<lparr>path = ''a/b''\<rparr>))"
proof (intro conjI)
  show "op_insert os p = os @ toString p" by (simp add: op_insert_def)
  show "op_extract h strm target \<noteq> Inr r"
    by (simp add: op_extract_def split: sum.split prod.split)
  show "op_extract Posix
        \<lparr>buffer = [CHR 0x20, CHR ''a'', CHR 0x5C, CHR ''b'', CHR 0x20, CHR ''c''],
         failbit = False, eofbit = False,
         exceptions_failbit = False, exceptions_eofbit = False\<rparr> FilePath_empty
       = Inl (Flows_off_end
               (\<lparr>buffer = '' c'', failbit = False, eofbit = False,
                 exceptions_failbit = False, exceptions_eofbit = False\<rparr>,
                \<lparr>path = ''a/b''\<rparr>))"
    by (simp add: op_extract_def extract_string_def setstate_def isspace_def path_defs
        char_defs)
qed

section \<open>The generic string form\<close>

text \<open>
  Claim C9. In the generic string of every path, every separator character is the one
  fixed generic separator; the other characters and the length are those of the
  canonical string. The function does not depend on the host.
\<close>

theorem generic_fixed_separator:
  "(\<forall>c \<in> set (toGenericString p). is_separator c \<longrightarrow> c = GENERIC_SEPARATOR_C)
   \<and> length (toGenericString p) = length (path p)
   \<and> (\<forall>i < length (path p).
        toGenericString p ! i
          = (if is_separator (path p ! i) then GENERIC_SEPARATOR_C else path p ! i))"
  by (auto simp add: toGenericString_def is_separator_def GENERIC_SEPARATOR_C_def)

text \<open>The theorem at \<^verbatim>\<open>a/b\<close>, constructed on either host.\<close>

theorem generic_fixed_separator_witness:
  "toGenericString (FilePath_string Posix ''a/b'') = [CHR ''a'', CHR 0x5C, CHR ''b'']
   \<and> toGenericString (FilePath_string Windows ''a/b'') = [CHR ''a'', CHR 0x5C, CHR ''b'']
   \<and> is_separator (CHR 0x5C) \<and> CHR 0x5C = GENERIC_SEPARATOR_C"
  using generic_fixed_separator [of "FilePath_string Posix ''a/b''"]
  by (simp add: toGenericString_def is_separator_def GENERIC_SEPARATOR_C_def
      FilePath_string_def NormalizePath_def char_defs)

end
